theory Spec2Isabelle
  imports Main
begin

section \<open>Python values the package module relies on\<close>

text \<open>
  The module \<open>ccdc/thirdparty/package.py\<close> is glue around the operating system: it
  computes names and paths from \<open>sys.platform\<close> and \<open>os.environ\<close>, and runs external
  tools. Exceptions are values of \<open>exn\<close>; a computation that may raise returns
  \<open>exn + 'a\<close> with \<open>Inl\<close> the exception.
\<close>

datatype exn =
    CalledProcessError int "string list"
  | AttributeError string
  | TypeError
  | ValueError
  | OSError
  | URLError
  | UnicodeDecodeError
  | UnicodeEncodeError
  | Exception string

text \<open>Python's \<open>sep.join(xs)\<close> on a list of strings.\<close>

fun join_with :: "string \<Rightarrow> string list \<Rightarrow> string" where
  "join_with sep [] = []"
| "join_with sep [x] = x"
| "join_with sep (x # y # ys) = x @ sep @ join_with sep (y # ys)"

text \<open>
  \<open>sep.join(components)\<close> where a component may be \<open>None\<close>: Python raises
  \<open>TypeError\<close> as soon as one item is not a string.
\<close>

definition py_join :: "string \<Rightarrow> string option list \<Rightarrow> exn + string" where
  "py_join sep xs = (case those xs of None \<Rightarrow> Inl TypeError | Some ys \<Rightarrow> Inr (join_with sep ys))"

text \<open>Python's \<open>s.startswith(p)\<close>.\<close>

definition startswith :: "string \<Rightarrow> string \<Rightarrow> bool" where
  "startswith s p = (take (length p) s = p)"

text \<open>Python's \<open>s.split(c)\<close> for a one-character separator.\<close>

fun split_on :: "char \<Rightarrow> string \<Rightarrow> string list" where
  "split_on c [] = [[]]"
| "split_on c (x # xs) =
     (if x = c then [] # split_on c xs
      else (case split_on c xs of [] \<Rightarrow> [[x]] | y # ys \<Rightarrow> (x # y) # ys))"

text \<open>Python's \<open>s.lstrip(c)\<close> for a one-character argument.\<close>

definition lstrip_char :: "char \<Rightarrow> string \<Rightarrow> string" where
  "lstrip_char c s = dropWhile (\<lambda>x. x = c) s"

text \<open>Python's \<open>s.find(c, k)\<close> for a one-character argument; \<open>None\<close> is \<open>-1\<close>.\<close>

fun find_char :: "char \<Rightarrow> string \<Rightarrow> nat option" where
  "find_char c [] = None"
| "find_char c (x # xs) = (if x = c then Some 0 else map_option Suc (find_char c xs))"

definition find_from :: "char \<Rightarrow> nat \<Rightarrow> string \<Rightarrow> nat option" where
  "find_from c k s = map_option (\<lambda>i. i + k) (find_char c (drop k s))"

text \<open>Python's \<open>s.lower()\<close> on ASCII text, which is what the model's strings hold.\<close>

definition lower :: "string \<Rightarrow> string" where
  "lower s =
     map (\<lambda>c. case map_of (zip ''ABCDEFGHIJKLMNOPQRSTUVWXYZ'' ''abcdefghijklmnopqrstuvwxyz'') c of
                 Some l \<Rightarrow> l
               | None \<Rightarrow> c) s"

section \<open>Paths\<close>

text \<open>
  The paths of the module are \<open>pathlib\<close> paths of the interpreter it targets (it
  imports \<open>distutils\<close>). A path is the triple that \<open>pathlib\<close> keeps, drive, root and
  parts (the anchor, when there is one, is the first part), with the flavour of its
  class: Windows when \<open>os.name\<close> is \<open>nt\<close>, POSIX otherwise. The functions below follow
  \<open>_WindowsFlavour\<close>, \<open>_PosixFlavour\<close> and \<open>PurePath\<close> method by method:
  \<open>splitroot\<close>, \<open>parse_parts\<close>, \<open>join_parsed_parts\<close>, \<open>_format_parsed_parts\<close>,
  \<open>__str__\<close>, \<open>name\<close>, \<open>suffixes\<close>, \<open>parent\<close>, \<open>relative_to\<close> and \<open>/\<close>.
\<close>

definition backslash :: char where
  "backslash = CHR 0x5C"

definition sep :: "bool \<Rightarrow> char" where
  "sep win = (if win then backslash else CHR ''/'')"

definition drive_letters :: "char set" where
  "drive_letters = set ''abcdefghijklmnopqrstuvwxyzABCDEFGHIJKLMNOPQRSTUVWXYZ''"

text \<open>\<open>_PosixFlavour.splitroot\<close>: exactly two leading slashes are kept as the root.\<close>

definition splitroot_posix :: "string \<Rightarrow> string \<times> string \<times> string" where
  "splitroot_posix part =
     (if part \<noteq> [] \<and> hd part = CHR ''/'' then
        (let stripped_part = lstrip_char CHR ''/'' part
         in if length part - length stripped_part = 2 then ([], ''//'', stripped_part)
            else ([], ''/'', stripped_part))
      else ([], [], part))"

text \<open>
  \<open>_WindowsFlavour.splitroot\<close>, with the extended-path prefix, UNC shares and drive
  letters; the text has had its forward slashes turned into backslashes already.
\<close>

definition split_extended_path :: "string \<Rightarrow> string \<times> string" where
  "split_extended_path s =
     (if startswith s [backslash, backslash, CHR ''?'', backslash] then
        (let prefix = take 4 s; s1 = drop 4 s
         in if startswith s1 (''UNC'' @ [backslash]) then (prefix @ take 3 s1, backslash # drop 3 s1)
            else (prefix, s1))
      else ([], s))"

definition splitroot_windows :: "string \<Rightarrow> string \<times> string \<times> string" where
  "splitroot_windows part0 =
     (let ext = (if take 1 (drop 1 part0) = [backslash] \<and> take 1 part0 = [backslash]
                 then split_extended_path part0 else ([], part0));
          prefix = fst ext;
          part = snd ext;
          first = take 1 part;
          second = take 1 (drop 1 part);
          third = take 1 (drop 2 part);
          unc =
            (if second = [backslash] \<and> first = [backslash] \<and> third \<noteq> [backslash] then
               (case find_from backslash 2 part of
                  None \<Rightarrow> None
                | Some index \<Rightarrow>
                    (let found = find_from backslash (index + 1) part
                     in if found \<noteq> Some (index + 1) then
                          (let index2 = (case found of None \<Rightarrow> length part | Some j \<Rightarrow> j)
                           in Some (if prefix \<noteq> [] then prefix @ drop 1 (take index2 part)
                                    else take index2 part,
                                    [backslash], drop (index2 + 1) part))
                        else None))
             else None)
      in case unc of
           Some res \<Rightarrow> res
         | None \<Rightarrow>
             (let has_drive = (second = '':'' \<and> first \<noteq> [] \<and> hd first \<in> drive_letters);
                  drive = (if has_drive then take 2 part else []);
                  part1 = (if has_drive then drop 2 part else part);
                  first1 = (if has_drive then third else first)
              in if first1 = [backslash] then (prefix @ drive, [backslash], lstrip_char backslash part1)
                 else (prefix @ drive, [], part1)))"

definition splitroot :: "bool \<Rightarrow> string \<Rightarrow> string \<times> string \<times> string" where
  "splitroot win part = (if win then splitroot_windows part else splitroot_posix part)"

definition replace_altsep :: "bool \<Rightarrow> string \<Rightarrow> string" where
  "replace_altsep win part =
     (if win then map (\<lambda>c. if c = CHR ''/'' then backslash else c) part else part)"

text \<open>
  \<open>parse_parts\<close> walks the given texts from the last to the first, collects the
  components that are neither empty nor a dot, and stops at the first text that has a
  drive or a root; a root without a drive takes the drive of an earlier text.
\<close>

fun find_drive :: "bool \<Rightarrow> string list \<Rightarrow> string" where
  "find_drive win [] = []"
| "find_drive win (part # rest) =
     (if part = [] then find_drive win rest
      else (let d = fst (splitroot win (replace_altsep win part))
            in if d \<noteq> [] then d else find_drive win rest))"

fun scan_parts :: "bool \<Rightarrow> string list \<Rightarrow> string \<times> string \<times> string list" where
  "scan_parts win [] = ([], [], [])"
| "scan_parts win (part # rest) =
     (if part = [] then scan_parts win rest
      else
        (case splitroot win (replace_altsep win part) of
           (d, r, rel) \<Rightarrow>
             (let comps = filter (\<lambda>x. x \<noteq> [] \<and> x \<noteq> ''.'') (split_on (sep win) rel)
              in if d \<noteq> [] \<or> r \<noteq> [] then
                   (if d = [] then find_drive win rest else d, r, comps)
                 else
                   (case scan_parts win rest of
                      (d', r', comps') \<Rightarrow> (d', r', comps' @ comps)))))"

definition parse_parts :: "bool \<Rightarrow> string list \<Rightarrow> string \<times> string \<times> string list" where
  "parse_parts win ps =
     (case scan_parts win (rev ps) of
        (d, r, comps) \<Rightarrow> (d, r, (if d \<noteq> [] \<or> r \<noteq> [] then [d @ r] else []) @ comps))"

record path =
  windows_flavour :: bool
  drv :: string
  root :: string
  parts :: "string list"

definition from_parsed_parts :: "bool \<Rightarrow> string \<times> string \<times> string list \<Rightarrow> path" where
  "from_parsed_parts win t =
     (case t of (d, r, ps) \<Rightarrow> \<lparr>windows_flavour = win, drv = d, root = r, parts = ps\<rparr>)"

text \<open>\<open>PurePath(s)\<close> of the given flavour.\<close>

definition pure_path :: "bool \<Rightarrow> string \<Rightarrow> path" where
  "pure_path win s = from_parsed_parts win (parse_parts win [s])"

definition join_parsed_parts ::
  "bool \<Rightarrow> string \<times> string \<times> string list \<Rightarrow> string \<times> string \<times> string list
     \<Rightarrow> string \<times> string \<times> string list" where
  "join_parsed_parts win a b =
     (case a of (d, r, ps) \<Rightarrow>
      case b of (d2, r2, ps2) \<Rightarrow>
        (if r2 \<noteq> [] then
           (if d2 = [] \<and> d \<noteq> [] then (d, r2, [d @ r2] @ tl ps2) else (d2, r2, ps2))
         else if d2 \<noteq> [] then
           (if d2 = d \<or> (if win then lower d2 = lower d else d2 = d)
            then (d, r, ps @ tl ps2) else (d2, r2, ps2))
         else (d, r, ps @ ps2)))"

text \<open>\<open>p / key\<close> for a string \<open>key\<close>.\<close>

definition joinpath :: "path \<Rightarrow> string \<Rightarrow> path" where
  "joinpath p key =
     from_parsed_parts (windows_flavour p)
       (join_parsed_parts (windows_flavour p) (drv p, root p, parts p)
          (parse_parts (windows_flavour p) [key]))"

definition format_parsed_parts :: "bool \<Rightarrow> string \<Rightarrow> string \<Rightarrow> string list \<Rightarrow> string" where
  "format_parsed_parts win d r ps =
     (if d \<noteq> [] \<or> r \<noteq> [] then d @ r @ join_with [sep win] (tl ps)
      else join_with [sep win] ps)"

definition path_str :: "path \<Rightarrow> string" where
  "path_str p =
     (let s = format_parsed_parts (windows_flavour p) (drv p) (root p) (parts p)
      in if s = [] then ''.'' else s)"

definition path_name :: "path \<Rightarrow> string" where
  "path_name p =
     (if length (parts p) = (if drv p \<noteq> [] \<or> root p \<noteq> [] then 1 else 0) then []
      else last (parts p))"

definition parent :: "path \<Rightarrow> path" where
  "parent p =
     (if length (parts p) = 1 \<and> (drv p \<noteq> [] \<or> root p \<noteq> []) then p
      else p\<lparr>parts := butlast (parts p)\<rparr>)"

definition casefold_parts :: "bool \<Rightarrow> string list \<Rightarrow> string list" where
  "casefold_parts win ps = (if win then map lower ps else ps)"

text \<open>
  \<open>p.relative_to(other)\<close> for a path \<open>other\<close>: the parts of \<open>other\<close> are parsed
  again, and \<open>ValueError\<close> is raised unless they lead \<open>p\<close>.
\<close>

definition relative_to :: "path \<Rightarrow> path \<Rightarrow> exn + path" where
  "relative_to p other =
     (let win = windows_flavour p;
          abs_parts = (if root p \<noteq> [] then [drv p, root p] @ tl (parts p) else parts p)
      in case parse_parts win (parts other) of
           (to_drv, to_root, to_parts) \<Rightarrow>
             (let to_abs_parts =
                    (if to_root \<noteq> [] then [to_drv, to_root] @ tl to_parts else to_parts);
                  n = length to_abs_parts
              in if (if n = 0 then root p \<noteq> [] \<or> drv p \<noteq> []
                     else casefold_parts win (take n abs_parts) \<noteq> casefold_parts win to_abs_parts)
                 then Inl ValueError
                 else Inr \<lparr>windows_flavour = win, drv = [],
                           root = (if n = 1 then root p else []),
                           parts = drop n abs_parts\<rparr>))"

text \<open>
  \<open>suffixes\<close>: none when the name ends with a dot, otherwise leading dots are dropped
  and every piece after the first dot-separated one is a suffix.
\<close>

definition name_suffixes :: "string \<Rightarrow> string list" where
  "name_suffixes nm =
     (if nm \<noteq> [] \<and> last nm = CHR ''.'' then []
      else map (\<lambda>s. CHR ''.'' # s) (tl (split_on CHR ''.'' (lstrip_char CHR ''.'' nm))))"

definition suffixes :: "path \<Rightarrow> string list" where
  "suffixes p = name_suffixes (path_name p)"

text \<open>
  A text that \<open>/\<close> appends as one component: it holds no separator and, on Windows,
  does not begin with a drive letter and a colon.
\<close>

definition single_component :: "bool \<Rightarrow> string \<Rightarrow> bool" where
  "single_component win b =
     (CHR ''/'' \<notin> set b \<and>
      (if win then backslash \<notin> set b \<and> \<not> (take 1 (drop 1 b) = '':'' \<and> hd b \<in> drive_letters)
       else True))"

section \<open>The host: platform, environment and distribution probes\<close>

text \<open>
  Everything the properties of \<open>Package\<close> read from outside: \<open>sys.platform\<close>,
  \<open>os.environ\<close>, whether the two release files exist, and the decoded, stripped output
  of the three probe commands (\<open>check_output\<close> raises when the command fails).
\<close>

record host =
  sys_platform :: string
  environ :: "string \<rightharpoonup> string"
  centos_release_exists :: bool
  debian_version_exists :: bool
  rpm_rhel :: "exn + string"
  lsb_release_id :: "exn + string"
  lsb_release_r :: "exn + string"

record package =
  name :: string
  version :: string
  use_vs_version_in_base_name :: bool
  use_distribution_in_base_name :: bool
  source_archives :: "(string \<times> string) list"

definition macos :: "host \<Rightarrow> bool" where
  "macos h = (sys_platform h = ''darwin'')"

definition windows :: "host \<Rightarrow> bool" where
  "windows h = (sys_platform h = ''win32'')"

definition linux :: "host \<Rightarrow> bool" where
  "linux h = startswith (sys_platform h) ''linux''"

definition centos :: "host \<Rightarrow> bool" where
  "centos h = (linux h \<and> centos_release_exists h)"

definition centos_major_version :: "host \<Rightarrow> exn + string" where
  "centos_major_version h = rpm_rhel h"

definition debian :: "host \<Rightarrow> bool" where
  "debian h = (linux h \<and> debian_version_exists h)"

text \<open>\<open>self.debian and check_output(...) == 'Ubuntu'\<close>: the probe runs only on Debian.\<close>

definition ubuntu :: "host \<Rightarrow> exn + bool" where
  "ubuntu h =
     (if \<not> debian h then Inr False
      else (case lsb_release_id h of Inl e \<Rightarrow> Inl e | Inr s \<Rightarrow> Inr (s = ''Ubuntu'')))"

definition ubuntu_version :: "host \<Rightarrow> exn + string" where
  "ubuntu_version h = lsb_release_r h"

text \<open>
  The \<open>platform\<close> property. Its last \<open>if\<close> has no \<open>else\<close>: a Linux host that is
  neither CentOS nor Ubuntu falls off the end and the property is \<open>None\<close>.
\<close>

definition platform :: "package \<Rightarrow> host \<Rightarrow> exn + string option" where
  "platform p h =
     (if \<not> use_distribution_in_base_name p then Inr (Some (sys_platform h))
      else if \<not> linux h then Inr (Some (sys_platform h))
      else if centos h then
        (case centos_major_version h of
           Inl e \<Rightarrow> Inl e
         | Inr v \<Rightarrow> Inr (Some (''centos'' @ v)))
      else
        (case ubuntu h of
           Inl e \<Rightarrow> Inl e
         | Inr True \<Rightarrow>
             (case ubuntu_version h of
                Inl e \<Rightarrow> Inl e
              | Inr v \<Rightarrow> Inr (Some (''ubuntu'' @ v)))
         | Inr False \<Rightarrow> Inr None))"

definition output_base_name :: "package \<Rightarrow> host \<Rightarrow> exn + string" where
  "output_base_name p h =
     (let components = [Some (name p), Some (version p)];
          components = components @
            [case environ h ''BUILD_BUILDNUMBER'' of
               Some n \<Rightarrow> Some n
             | None \<Rightarrow> Some ''do-not-use-me-developer-version'']
      in case platform p h of
           Inl e \<Rightarrow> Inl e
         | Inr pf \<Rightarrow>
             (let components = components @ [pf];
                  components =
                    (case environ h ''BUILD_VS_VERSION'' of
                       Some v \<Rightarrow>
                         (if use_vs_version_in_base_name p
                          then components @ [Some (''vs'' @ v)] else components)
                     | None \<Rightarrow> components)
              in py_join ''-'' components))"

text \<open>The base class sets the two flags in \<open>__init__\<close>.\<close>

definition Package :: "string \<Rightarrow> string \<Rightarrow> (string \<times> string) list \<Rightarrow> package" where
  "Package n v archives =
     \<lparr>name = n, version = v, use_vs_version_in_base_name = True,
      use_distribution_in_base_name = False, source_archives = archives\<rparr>"

text \<open>A host with the given platform string and environment, and no distribution files.\<close>

definition plain_host :: "string \<Rightarrow> (string \<rightharpoonup> string) \<Rightarrow> host" where
  "plain_host pf env =
     \<lparr>sys_platform = pf, environ = env, centos_release_exists = False,
      debian_version_exists = False, rpm_rhel = Inl (CalledProcessError 127 [''rpm -E %{rhel}'']),
      lsb_release_id = Inl (CalledProcessError 127 [''lsb_release -i -s'']),
      lsb_release_r = Inl (CalledProcessError 127 [''lsb_release -r -s''])\<rparr>"

section \<open>The CMake mixin's generator helper\<close>

definition visual_studio_generator_for_build :: "host \<Rightarrow> exn + string" where
  "visual_studio_generator_for_build h =
     (case environ h ''BUILD_VS_VERSION'' of
        None \<Rightarrow> Inr ''Visual Studio 16 2019''
      | Some v \<Rightarrow>
          (if v = ''2019'' then Inr ''Visual Studio 16 2019''
           else if v = ''2017'' then Inr ''Visual Studio 15 2017''
           else Inl (Exception (''Invalid value for BUILD_VS_VERSION: '' @ v))))"

section \<open>Directory layout\<close>

text \<open>The text of a Windows path literal such as \<open>'D:\\tp\\builds'\<close>, from its pieces.\<close>

definition win_text :: "string list \<Rightarrow> string" where
  "win_text pieces = join_with [backslash] pieces"

text \<open>\<open>Path(s)\<close>: the class, and with it the flavour, follows the platform.\<close>

definition Path :: "host \<Rightarrow> string \<Rightarrow> path" where
  "Path h s = pure_path (windows h) s"

definition toolbase :: "host \<Rightarrow> path" where
  "toolbase h =
     (if windows h then Path h (win_text [''D:'', ''x_mirror'', ''buildman'', ''tools''])
      else Path h ''/opt/ccdc/third-party'')"

definition source_downloads_base :: "host \<Rightarrow> path" where
  "source_downloads_base h =
     (if windows h then
        (case environ h ''SYSTEM_ARTIFACTSDIRECTORY'' of
           Some d \<Rightarrow> Path h d
         | None \<Rightarrow> Path h (win_text [''D:'', ''tp'', ''downloads'']))
      else Path h ''/opt/ccdc/third-party-sources/downloads'')"

definition source_extracted_base :: "host \<Rightarrow> path" where
  "source_extracted_base h =
     (if windows h then Path h (win_text [''D:'', ''tp'', ''extracted''])
      else Path h ''/opt/ccdc/third-party-sources/extracted'')"

definition source_builds_base :: "host \<Rightarrow> path" where
  "source_builds_base h =
     (if windows h then Path h (win_text [''D:'', ''tp'', ''builds''])
      else Path h ''/opt/ccdc/third-party-sources/builds'')"

definition install_directory :: "package \<Rightarrow> host \<Rightarrow> exn + path" where
  "install_directory p h =
     (case output_base_name p h of
        Inl e \<Rightarrow> Inl e
      | Inr b \<Rightarrow> Inr (joinpath (joinpath (toolbase h) (name p)) b))"

definition output_archive_filename :: "package \<Rightarrow> host \<Rightarrow> exn + string" where
  "output_archive_filename p h =
     (case output_base_name p h of
        Inl e \<Rightarrow> Inl e
      | Inr b \<Rightarrow> Inr (b @ ''.tar.gz''))"

text \<open>A Windows build agent with an artifact staging directory.\<close>

definition win_ci_host :: host where
  "win_ci_host =
     plain_host ''win32'' [''BUILD_ARTIFACTSTAGINGDIRECTORY'' \<mapsto> win_text [''E:'', ''stage'']]"

section \<open>Running external commands\<close>

text \<open>
  \<open>system(command, cwd)\<close> starts a child process, copies its output to the console and
  to the stage's log file, and raises \<open>CalledProcessError\<close> when the exit status is not
  zero. What the child does is outside the program: a \<open>runner\<close> gives, for an
  invocation and the world before it, how the call went and the world after it. The
  log file or the child may fail to open (\<open>OSError\<close>, nothing has run); a line of
  output may fail to decode as UTF-8, to print, or to be written to the log, each
  raised before the exit status is looked at; otherwise the child exits with a status.
  The state threaded through the program pairs the list of commands started so far
  with that world. The model takes the child to terminate (the source has no timeout).
\<close>

record invocation =
  argv :: "string list"
  cwd :: "path option"

datatype outcome = Exited int | NotStarted | DecodeFailed | PrintFailed | LogWriteFailed

type_synonym 'w runner = "invocation \<Rightarrow> 'w \<Rightarrow> outcome \<times> 'w"

type_synonym 'w procs = "invocation list \<times> 'w"

definition system :: "'w runner \<Rightarrow> invocation \<Rightarrow> 'w procs \<Rightarrow> (exn + unit) \<times> 'w procs" where
  "system run call st =
     (case run call (snd st) of
        (NotStarted, w') \<Rightarrow> (Inl OSError, (fst st, w'))
      | (DecodeFailed, w') \<Rightarrow> (Inl UnicodeDecodeError, (fst st @ [call], w'))
      | (PrintFailed, w') \<Rightarrow> (Inl UnicodeEncodeError, (fst st @ [call], w'))
      | (LogWriteFailed, w') \<Rightarrow> (Inl OSError, (fst st @ [call], w'))
      | (Exited rc, w') \<Rightarrow>
          (if rc \<noteq> 0 then Inl (CalledProcessError rc (argv call)) else Inr (),
           (fst st @ [call], w')))"

text \<open>\<open>except subprocess.CalledProcessError\<close> catches this one class only.\<close>

fun is_CalledProcessError :: "exn \<Rightarrow> bool" where
  "is_CalledProcessError (CalledProcessError rc c) = True"
| "is_CalledProcessError e = False"

text \<open>A runner under which every command exits with status 0, on a trivial world.\<close>

definition all_succeed :: "unit runner" where
  "all_succeed call w = (Exited 0, w)"

text \<open>A runner under which every command exits with status 2.\<close>

definition all_fail :: "unit runner" where
  "all_fail call w = (Exited 2, w)"

text \<open>A runner under which tar exits with status 0 only when given \<open>--force-local\<close>.\<close>

definition needs_force_local :: "unit runner" where
  "needs_force_local call w = (if ''--force-local'' \<in> set (argv call) then Exited 0 else Exited 2, w)"

subsection \<open>Lists, strings and \<open>+\<close>\<close>

text \<open>
  \<open>extract_archive\<close> rebinds \<open>flags\<close> from a list to a string on Windows, so the
  operands of \<open>+\<close> are modelled with their Python type: \<open>+\<close> concatenates two lists
  or two strings and raises \<open>TypeError\<close> on a list and a string.
\<close>

datatype pyseq = PyList "string list" | PyStr string

fun py_add :: "pyseq \<Rightarrow> pyseq \<Rightarrow> exn + pyseq" where
  "py_add (PyList a) (PyList b) = Inr (PyList (a @ b))"
| "py_add (PyStr a) (PyStr b) = Inr (PyStr (a @ b))"
| "py_add (PyList a) (PyStr b) = Inl TypeError"
| "py_add (PyStr a) (PyList b) = Inl TypeError"

definition bind_exn :: "exn + 'a \<Rightarrow> ('a \<Rightarrow> exn + 'b) \<Rightarrow> exn + 'b" where
  "bind_exn m f = (case m of Inl e \<Rightarrow> Inl e | Inr x \<Rightarrow> f x)"

text \<open>\<open>repr\<close> of a string without quotes or escapes, and of a list of such strings.\<close>

definition py_repr_str :: "string \<Rightarrow> string" where
  "py_repr_str s = [CHR 0x27] @ s @ [CHR 0x27]"

definition py_repr_list :: "string list \<Rightarrow> string" where
  "py_repr_list xs = ''['' @ join_with '', '' (map py_repr_str xs) @ '']''"

text \<open>
  \<open>self.system(<expression>, cwd=...)\<close>: the argument is evaluated first, and an
  exception it raises leaves \<open>system\<close> uncalled; a string command is wrapped in a list.
\<close>

definition system_py ::
  "'w runner \<Rightarrow> exn + pyseq \<Rightarrow> path option \<Rightarrow> 'w procs \<Rightarrow> (exn + unit) \<times> 'w procs" where
  "system_py run cmd dir st =
     (case cmd of
        Inl e \<Rightarrow> (Inl e, st)
      | Inr (PyList xs) \<Rightarrow> system run \<lparr>argv = xs, cwd = dir\<rparr> st
      | Inr (PyStr s) \<Rightarrow> system run \<lparr>argv = [s], cwd = dir\<rparr> st)"

section \<open>Extracting an archive\<close>

text \<open>The \<open>if\<close>/\<open>elif\<close> chain that picks tar's flags; \<open>None\<close> is its \<open>else: raise\<close>.\<close>

definition tar_flags :: "string list \<Rightarrow> string list option" where
  "tar_flags sfx =
     (if ''.bz2'' \<in> set sfx then Some [''jxf'']
      else if ''.gz'' \<in> set sfx then Some [''zxf'']
      else if ''.tgz'' \<in> set sfx then Some [''zxf'']
      else if ''.xz'' \<in> set sfx then Some [''xf'']
      else if ''.zst'' \<in> set sfx then Some [''--use-compress-program=zstd'', ''-xf'']
      else None)"

text \<open>
  The tar step after the flags are chosen. On Windows \<open>flags = f'-{flags}'\<close> turns the
  list into the string of its \<open>repr\<close> before the command lists are built with \<open>+\<close>.
\<close>

definition run_tar ::
  "'w runner \<Rightarrow> host \<Rightarrow> string list \<Rightarrow> path \<Rightarrow> path \<Rightarrow> 'w procs \<Rightarrow> (exn + unit) \<times> 'w procs" where
  "run_tar run h flags pth wh st =
     (if windows h then
        (let flags' = PyStr (''-'' @ py_repr_list flags);
             attempt = system_py run
               (bind_exn (py_add (PyList [''tar'', ''--force-local'']) flags')
                  (\<lambda>c. py_add c (PyList [path_str pth])))
               (Some wh) st
         in case fst attempt of
              Inr u \<Rightarrow> attempt
            | Inl e \<Rightarrow>
                (if is_CalledProcessError e then
                   system_py run
                     (bind_exn (py_add (PyList [''tar'']) flags')
                        (\<lambda>c. py_add c (PyList [path_str pth])))
                     (Some wh) (snd attempt)
                 else attempt))
      else
        system_py run
          (bind_exn (py_add (PyList [''tar'']) (PyList flags))
             (\<lambda>c. py_add c (PyList [path_str pth])))
          (Some wh) st)"

definition extract_archive ::
  "'w runner \<Rightarrow> host \<Rightarrow> path \<Rightarrow> path \<Rightarrow> 'w procs \<Rightarrow> (exn + unit) \<times> 'w procs" where
  "extract_archive run h pth wh st =
     (if ''.zip'' \<in> set (suffixes pth) then
        system run \<lparr>argv = [''unzip'', ''-q'', ''-o'', path_str pth], cwd = Some wh\<rparr> st
      else
        (let after7z =
               (if ''.7z'' \<in> set (suffixes pth) then
                  system run
                    \<lparr>argv = [''7z'', ''x'', ''-aoa'', ''-o'' @ path_str wh, path_str pth],
                     cwd = None\<rparr> st
                else (Inr (), st))
         in case fst after7z of
              Inl e \<Rightarrow> after7z
            | Inr u \<Rightarrow>
                (case tar_flags (suffixes pth) of
                   None \<Rightarrow>
                     (Inl (AttributeError (''Can't extract '' @ path_str pth)), snd after7z)
                 | Some flags \<Rightarrow> run_tar run h flags pth wh (snd after7z))))"

section \<open>Creating the output archive\<close>

text \<open>Python's \<open>xs.insert(i, x)\<close> for an index within the list.\<close>

definition list_insert :: "nat \<Rightarrow> 'a \<Rightarrow> 'a list \<Rightarrow> 'a list" where
  "list_insert i x xs = take i xs @ x # drop i xs"

definition archive_output_directory :: "host \<Rightarrow> path" where
  "archive_output_directory h =
     (case environ h ''BUILD_ARTIFACTSTAGINGDIRECTORY'' of
        Some d \<Rightarrow> Path h d
      | None \<Rightarrow> source_builds_base h)"

text \<open>The command list \<open>create_archive\<close> builds before it runs anything.\<close>

definition archive_command :: "package \<Rightarrow> host \<Rightarrow> exn + string list" where
  "archive_command p h =
     bind_exn (output_archive_filename p h) (\<lambda>fname.
     bind_exn (install_directory p h) (\<lambda>inst.
     bind_exn (relative_to inst (joinpath (toolbase h) (name p))) (\<lambda>rel.
       Inr [''tar'', ''-zcf'',
            path_str (joinpath (archive_output_directory h) fname),
            path_str rel])))"

definition create_archive ::
  "'w runner \<Rightarrow> package \<Rightarrow> host \<Rightarrow> 'w procs \<Rightarrow> (exn + unit) \<times> 'w procs" where
  "create_archive run p h st =
     (case archive_command p h of
        Inl e \<Rightarrow> (Inl e, st)
      | Inr command \<Rightarrow>
          (let dir = Some (joinpath (toolbase h) (name p));
               attempt = system run \<lparr>argv = command, cwd = dir\<rparr> st
           in case fst attempt of
                Inr u \<Rightarrow> attempt
              | Inl e \<Rightarrow>
                  (if is_CalledProcessError e then
                     (if \<not> windows h then attempt
                      else system run
                             \<lparr>argv = list_insert 1 ''--force-local'' command, cwd = dir\<rparr>
                             (snd attempt))
                   else attempt)))"

section \<open>Fetching the source archives\<close>















section \<open>The build pipeline\<close>

text \<open>
  \<open>build\<close> calls nine methods of the package, one statement each. They are virtual:
  mixins and concrete packages override them, so \<open>build\<close> is modelled over any
  implementation of the stages, each a function from the world to an exception or a
  normal return and the world it leaves. The state of \<open>build\<close> adds the list of the
  stages called so far.
\<close>

datatype stage =
    Cleanup
  | Fetch_source_archives
  | Extract_source_archives
  | Patch_sources
  | Run_configuration_script
  | Run_build_command
  | Run_install_command
  | Verify
  | Create_archive

type_synonym 'w hooks = "stage \<Rightarrow> 'w \<Rightarrow> (exn + unit) \<times> 'w"

definition call_stage ::
  "'w hooks \<Rightarrow> stage \<Rightarrow> stage list \<times> 'w \<Rightarrow> (exn + unit) \<times> (stage list \<times> 'w)" where
  "call_stage hk s st = (case hk s (snd st) of (r, w') \<Rightarrow> (r, (fst st @ [s], w')))"

text \<open>Statement sequencing: an exception in the first statement skips the second.\<close>

definition and_then ::
  "(exn + unit) \<times> 'st \<Rightarrow> ('st \<Rightarrow> (exn + unit) \<times> 'st) \<Rightarrow> (exn + unit) \<times> 'st" where
  "and_then m f = (case fst m of Inl e \<Rightarrow> m | Inr u \<Rightarrow> f (snd m))"

definition build :: "'w hooks \<Rightarrow> stage list \<times> 'w \<Rightarrow> (exn + unit) \<times> (stage list \<times> 'w)" where
  "build hk st =
     and_then (and_then (and_then (and_then (and_then (and_then (and_then (and_then
       (call_stage hk Cleanup st)
       (call_stage hk Fetch_source_archives))
       (call_stage hk Extract_source_archives))
       (call_stage hk Patch_sources))
       (call_stage hk Run_configuration_script))
       (call_stage hk Run_build_command))
       (call_stage hk Run_install_command))
       (call_stage hk Verify))
       (call_stage hk Create_archive)"

text \<open>
  The contract in the specification's words: the stages of a list run in order, and the
  first one that fails ends the run.
\<close>

definition pipeline :: "stage list" where
  "pipeline =
     [Cleanup, Fetch_source_archives, Extract_source_archives, Patch_sources,
      Run_configuration_script, Run_build_command, Run_install_command, Verify,
      Create_archive]"

fun run_in_order ::
  "'w hooks \<Rightarrow> stage list \<Rightarrow> stage list \<times> 'w \<Rightarrow> (exn + unit) \<times> (stage list \<times> 'w)" where
  "run_in_order hk [] st = (Inr (), st)"
| "run_in_order hk (s # ss) st =
     (case call_stage hk s st of
        (Inl e, st') \<Rightarrow> (Inl e, st')
      | (Inr u, st') \<Rightarrow> run_in_order hk ss st')"

text \<open>Stages for a package whose configuration script exits with status 1.\<close>

definition failing_configure :: "unit hooks" where
  "failing_configure s w =
     (if s = Run_configuration_script then Inl (CalledProcessError 1 [''qmake'']) else Inr (), w)"

section \<open>Properties\<close>

subsection \<open>Paths\<close>

lemma split_on_absent: "c \<notin> set s \<Longrightarrow> split_on c s = [s]"
  by (induction s) auto

lemma second_char_in_set: "take 1 (drop 1 b) = [c] \<Longrightarrow> c \<in> set b"
  by (metis in_set_dropD in_set_takeD list.set_intros(1))

lemma first_char_in_set: "take 1 b = [c] \<Longrightarrow> c \<in> set b"
  by (metis in_set_takeD list.set_intros(1))

lemma splitroot_single:
  assumes "single_component win b"
  shows "splitroot win (replace_altsep win b) = ([], [], b)"
proof (cases win)
  case False
  with assms have "CHR ''/'' \<notin> set b" by (simp add: single_component_def)
  then have "b = [] \<or> hd b \<noteq> CHR ''/''" by (cases b) auto
  with False show ?thesis by (auto simp: splitroot_def replace_altsep_def splitroot_posix_def)
next
  case True
  with assms have ns: "CHR ''/'' \<notin> set b" and nb: "backslash \<notin> set b"
    and nd: "\<not> (take 1 (drop 1 b) = '':'' \<and> hd b \<in> drive_letters)"
    by (simp_all add: single_component_def)
  have "map (\<lambda>c. if c = CHR ''/'' then backslash else c) b = b"
    using ns by (induction b) auto
  then have rep: "replace_altsep True b = b"
    by (simp add: replace_altsep_def)
  have a: "take 1 (drop 1 b) \<noteq> [backslash]" using nb second_char_in_set [of b backslash] by blast
  have f: "take 1 b \<noteq> [backslash]" using nb first_char_in_set [of b backslash] by blast
  show ?thesis
    using True a f nd by (simp add: rep splitroot_def splitroot_windows_def Let_def)
qed

lemma parse_parts_single:
  assumes "single_component win b" "b \<noteq> []" "b \<noteq> ''.''"
  shows "parse_parts win [b] = ([], [], [b])"
proof -
  have "sep win \<notin> set b"
    using assms(1) by (auto simp: single_component_def sep_def split: if_splits)
  then have "split_on (sep win) b = [b]" by (rule split_on_absent)
  then show ?thesis
    using assms(2,3) splitroot_single [OF assms(1)] by (simp add: parse_parts_def)
qed

lemma joinpath_single:
  assumes "single_component (windows_flavour p) b" "b \<noteq> []" "b \<noteq> ''.''"
  shows "joinpath p b = p\<lparr>parts := parts p @ [b]\<rparr>"
  using parse_parts_single [OF assms]
  by (simp add: joinpath_def join_parsed_parts_def from_parsed_parts_def)

lemma parse_parts_anchor:
  "parse_parts win ps = (d, r, xs) \<Longrightarrow> d \<noteq> [] \<or> r \<noteq> [] \<Longrightarrow> xs \<noteq> []"
  by (auto simp: parse_parts_def split: prod.splits)

lemma pure_path_anchor:
  "drv (pure_path win s) \<noteq> [] \<or> root (pure_path win s) \<noteq> [] \<Longrightarrow> parts (pure_path win s) \<noteq> []"
  by (cases "parse_parts win [s]") (auto simp: pure_path_def from_parsed_parts_def dest: parse_parts_anchor)

lemma joinpath_anchor:
  assumes "drv p \<noteq> [] \<or> root p \<noteq> [] \<Longrightarrow> parts p \<noteq> []"
    and "drv (joinpath p key) \<noteq> [] \<or> root (joinpath p key) \<noteq> []"
  shows "parts (joinpath p key) \<noteq> []"
proof -
  obtain d2 r2 ps2 where k: "parse_parts (windows_flavour p) [key] = (d2, r2, ps2)"
    by (cases "parse_parts (windows_flavour p) [key]") auto
  from parse_parts_anchor [OF k] have k2: "d2 \<noteq> [] \<or> r2 \<noteq> [] \<Longrightarrow> ps2 \<noteq> []" .
  show ?thesis
    using assms k2
    by (auto simp: joinpath_def k join_parsed_parts_def from_parsed_parts_def split: if_splits)
qed

lemma joinpath_flavour: "windows_flavour (joinpath p key) = windows_flavour p"
  by (simp add: joinpath_def from_parsed_parts_def split: prod.splits)

lemma Path_flavour: "windows_flavour (Path h s) = windows h"
  by (simp add: Path_def pure_path_def from_parsed_parts_def split: prod.splits)

lemma toolbase_flavour: "windows_flavour (toolbase h) = windows h"
  by (simp add: toolbase_def Path_flavour)

lemma Path_anchor:
  "drv (Path h s) \<noteq> [] \<or> root (Path h s) \<noteq> [] \<Longrightarrow> parts (Path h s) \<noteq> []"
  unfolding Path_def by (rule pure_path_anchor)

lemma toolbase_anchor:
  "drv (toolbase h) \<noteq> [] \<or> root (toolbase h) \<noteq> [] \<Longrightarrow> parts (toolbase h) \<noteq> []"
  unfolding toolbase_def by (cases "windows h") (simp_all add: Path_anchor)

lemma child_of:
  assumes wf: "drv t \<noteq> [] \<or> root t \<noteq> [] \<Longrightarrow> parts t \<noteq> []"
    and b: "single_component (windows_flavour t) b" "b \<noteq> []" "b \<noteq> ''.''"
  shows "parent (joinpath t b) = t" and "path_name (joinpath t b) = b"
proof -
  have j: "joinpath t b = t\<lparr>parts := parts t @ [b]\<rparr>" using b by (rule joinpath_single)
  show "parent (joinpath t b) = t"
    using wf by (auto simp: j parent_def)
  show "path_name (joinpath t b) = b"
    using wf by (auto simp: j path_name_def)
qed

subsection \<open>Output names\<close>

lemma qwt_base_name_linux:
  "output_base_name (Package ''qwt'' ''6.1.4'' []) (plain_host ''linux'' Map.empty)
     = Inr ''qwt-6.1.4-do-not-use-me-developer-version-linux''"
  by (simp add: output_base_name_def Package_def plain_host_def platform_def py_join_def)

lemma windows_win32: "windows (plain_host ''win32'' env)"
  by (simp add: windows_def plain_host_def)

lemma not_windows_linux: "\<not> windows (plain_host ''linux'' env)"
  by (simp add: windows_def plain_host_def)

lemma qwt_base_name_win32:
  "output_base_name (Package ''qwt'' ''6.1.4'' []) (plain_host ''win32'' env0)
     = Inr (''qwt-6.1.4-'' @ (case env0 ''BUILD_BUILDNUMBER'' of Some n \<Rightarrow> n | None \<Rightarrow> ''do-not-use-me-developer-version'') @ ''-win32'' @ (case env0 ''BUILD_VS_VERSION'' of Some v \<Rightarrow> ''-vs'' @ v | None \<Rightarrow> []))"
  by (simp add: output_base_name_def Package_def plain_host_def platform_def py_join_def
      split: option.splits)

lemma join_with_dash: "CHR ''-'' \<in> set (join_with ''-'' (x # y # ys))"
  by simp

lemma output_base_name_dash: "output_base_name p h = Inr b \<Longrightarrow> CHR ''-'' \<in> set b"
  by (auto simp: output_base_name_def py_join_def Let_def
      split: sum.splits option.splits if_splits)

text \<open>
  C5. With name \<open>qwt\<close>, version \<open>6.1.4\<close>, \<open>sys.platform = "linux"\<close>, the default
  flags and an empty CI environment, \<open>output_base_name\<close> is
  \<open>qwt-6.1.4-do-not-use-me-developer-version-linux\<close>.
\<close>

theorem output_base_name_qwt_linux:
  "output_base_name (Package ''qwt'' ''6.1.4'' []) (plain_host ''linux'' Map.empty)
     = Inr ''qwt-6.1.4-do-not-use-me-developer-version-linux''"
  by (simp add: output_base_name_def Package_def plain_host_def platform_def py_join_def)

text \<open>
  C7, as amended. For every package and host, \<open>install_directory\<close> is
  \<open>toolbase / name / output_base_name\<close> and the archive file name is
  \<open>output_base_name\<close> followed by \<open>.tar.gz\<close>, both raising what \<open>output_base_name\<close>
  raises; and whenever \<open>output_base_name\<close> is a single path component (no path
  separator in it and, on Windows, no drive letter and colon at its start), the parent
  of \<open>install_directory\<close> is \<open>toolbase / name\<close> and its last component is exactly
  \<open>output_base_name\<close>.
\<close>

theorem install_directory_nests:
  "(\<forall>e. output_base_name p h = Inl e \<longrightarrow>
      install_directory p h = Inl e \<and> output_archive_filename p h = Inl e) \<and>
   (\<forall>b. output_base_name p h = Inr b \<longrightarrow>
      install_directory p h = Inr (joinpath (joinpath (toolbase h) (name p)) b) \<and>
      output_archive_filename p h = Inr (b @ ''.tar.gz'') \<and>
      (single_component (windows h) b \<longrightarrow>
         parent (joinpath (joinpath (toolbase h) (name p)) b) = joinpath (toolbase h) (name p) \<and>
         path_name (joinpath (joinpath (toolbase h) (name p)) b) = b))"
proof -
  let ?t = "joinpath (toolbase h) (name p)"
  have nest: "parent (joinpath ?t b) = ?t \<and> path_name (joinpath ?t b) = b"
    if ob: "output_base_name p h = Inr b" and sc: "single_component (windows h) b" for b
  proof -
    have dash: "CHR ''-'' \<in> set b" using ob by (rule output_base_name_dash)
    then have ne: "b \<noteq> []" "b \<noteq> ''.''" by auto
    have fl: "windows_flavour ?t = windows h" by (simp add: joinpath_flavour toolbase_flavour)
    have wf: "drv ?t \<noteq> [] \<or> root ?t \<noteq> [] \<Longrightarrow> parts ?t \<noteq> []"
      using toolbase_anchor by (rule joinpath_anchor)
    have sc': "single_component (windows_flavour ?t) b" using sc fl by simp
    from child_of [OF wf sc' ne] show ?thesis by simp
  qed
  have defs: "(\<forall>e. output_base_name p h = Inl e \<longrightarrow>
      install_directory p h = Inl e \<and> output_archive_filename p h = Inl e) \<and>
   (\<forall>b. output_base_name p h = Inr b \<longrightarrow>
      install_directory p h = Inr (joinpath ?t b) \<and>
      output_archive_filename p h = Inr (b @ ''.tar.gz''))"
    by (simp add: install_directory_def output_archive_filename_def)
  show ?thesis using nest defs by blast
qed

theorem install_directory_nests_witness:
  "output_base_name (Package ''qwt'' ''6.1.4'' []) (plain_host ''linux'' Map.empty)
     = Inr ''qwt-6.1.4-do-not-use-me-developer-version-linux'' \<and>
   single_component (windows (plain_host ''linux'' Map.empty))
     ''qwt-6.1.4-do-not-use-me-developer-version-linux'' \<and>
   install_directory (Package ''qwt'' ''6.1.4'' []) (plain_host ''linux'' Map.empty)
     = Inr (joinpath (joinpath (toolbase (plain_host ''linux'' Map.empty)) ''qwt'')
             ''qwt-6.1.4-do-not-use-me-developer-version-linux'') \<and>
   parent (joinpath (joinpath (toolbase (plain_host ''linux'' Map.empty)) ''qwt'')
             ''qwt-6.1.4-do-not-use-me-developer-version-linux'')
     = joinpath (toolbase (plain_host ''linux'' Map.empty)) ''qwt'' \<and>
   path_name (joinpath (joinpath (toolbase (plain_host ''linux'' Map.empty)) ''qwt'')
             ''qwt-6.1.4-do-not-use-me-developer-version-linux'')
     = ''qwt-6.1.4-do-not-use-me-developer-version-linux'' \<and>
   output_archive_filename (Package ''qwt'' ''6.1.4'' []) (plain_host ''linux'' Map.empty)
     = Inr ''qwt-6.1.4-do-not-use-me-developer-version-linux.tar.gz''"
proof -
  let ?p = "Package ''qwt'' ''6.1.4'' []"
  let ?h = "plain_host ''linux'' Map.empty"
  let ?b = "''qwt-6.1.4-do-not-use-me-developer-version-linux''"
  have sc: "single_component (windows ?h) ?b"
    by (simp add: single_component_def not_windows_linux)
  have nm: "name ?p = ''qwt''" by (simp add: Package_def)
  have "install_directory ?p ?h = Inr (joinpath (joinpath (toolbase ?h) (name ?p)) ?b) \<and>
      output_archive_filename ?p ?h = Inr (?b @ ''.tar.gz'') \<and>
      parent (joinpath (joinpath (toolbase ?h) (name ?p)) ?b) = joinpath (toolbase ?h) (name ?p) \<and>
      path_name (joinpath (joinpath (toolbase ?h) (name ?p)) ?b) = ?b"
    using install_directory_nests [of ?p ?h] qwt_base_name_linux sc by blast
  then show ?thesis
    using qwt_base_name_linux sc nm by simp
qed

text \<open>
  With \<open>BUILD_BUILDNUMBER = refs/heads/x\<close> the base name holds two separators, and
  \<open>/\<close> splits it: the last component of the install directory is \<open>x-linux\<close>, not
  the base name, and its parent is not \<open>toolbase / name\<close>.
\<close>

theorem install_directory_build_number_counterexample:
  "output_base_name (Package ''qwt'' ''6.1.4'' [])
     (plain_host ''linux'' [''BUILD_BUILDNUMBER'' \<mapsto> ''refs/heads/x''])
     = Inr ''qwt-6.1.4-refs/heads/x-linux'' \<and>
   install_directory (Package ''qwt'' ''6.1.4'' [])
     (plain_host ''linux'' [''BUILD_BUILDNUMBER'' \<mapsto> ''refs/heads/x''])
     = Inr (joinpath (joinpath (toolbase (plain_host ''linux'' [''BUILD_BUILDNUMBER'' \<mapsto> ''refs/heads/x''])) ''qwt'')
             ''qwt-6.1.4-refs/heads/x-linux'') \<and>
   path_name (joinpath (joinpath (toolbase (plain_host ''linux'' [''BUILD_BUILDNUMBER'' \<mapsto> ''refs/heads/x''])) ''qwt'')
             ''qwt-6.1.4-refs/heads/x-linux'')
     = ''x-linux'' \<and>
   path_str (parent (joinpath (joinpath (toolbase (plain_host ''linux'' [''BUILD_BUILDNUMBER'' \<mapsto> ''refs/heads/x''])) ''qwt'')
             ''qwt-6.1.4-refs/heads/x-linux''))
     = ''/opt/ccdc/third-party/qwt/qwt-6.1.4-refs/heads'' \<and>
   path_str (joinpath (toolbase (plain_host ''linux'' [''BUILD_BUILDNUMBER'' \<mapsto> ''refs/heads/x''])) ''qwt'')
     = ''/opt/ccdc/third-party/qwt'' \<and>
   path_name (joinpath (joinpath (toolbase (plain_host ''linux'' [''BUILD_BUILDNUMBER'' \<mapsto> ''refs/heads/x''])) ''qwt'')
             ''qwt-6.1.4-refs/heads/x-linux'')
     \<noteq> ''qwt-6.1.4-refs/heads/x-linux'' \<and>
   parent (joinpath (joinpath (toolbase (plain_host ''linux'' [''BUILD_BUILDNUMBER'' \<mapsto> ''refs/heads/x''])) ''qwt'')
             ''qwt-6.1.4-refs/heads/x-linux'')
     \<noteq> joinpath (toolbase (plain_host ''linux'' [''BUILD_BUILDNUMBER'' \<mapsto> ''refs/heads/x''])) ''qwt''"
proof -
  let ?h = "plain_host ''linux'' [''BUILD_BUILDNUMBER'' \<mapsto> ''refs/heads/x'']"
  have ob: "output_base_name (Package ''qwt'' ''6.1.4'' []) ?h = Inr ''qwt-6.1.4-refs/heads/x-linux''"
    by (simp add: output_base_name_def Package_def plain_host_def platform_def py_join_def)
  have tb: "toolbase ?h = pure_path False ''/opt/ccdc/third-party''"
    by (simp add: toolbase_def Path_def not_windows_linux)
  have nm: "name (Package ''qwt'' ''6.1.4'' []) = ''qwt''" by (simp add: Package_def)
  have a: "path_name (joinpath (joinpath (pure_path False ''/opt/ccdc/third-party'') ''qwt'')
             ''qwt-6.1.4-refs/heads/x-linux'') = ''x-linux''"
    by code_simp
  have b: "path_str (parent (joinpath (joinpath (pure_path False ''/opt/ccdc/third-party'') ''qwt'')
             ''qwt-6.1.4-refs/heads/x-linux'')) = ''/opt/ccdc/third-party/qwt/qwt-6.1.4-refs/heads''"
    by code_simp
  have c: "path_str (joinpath (pure_path False ''/opt/ccdc/third-party'') ''qwt'')
     = ''/opt/ccdc/third-party/qwt''"
    by code_simp
  have d: "parent (joinpath (joinpath (pure_path False ''/opt/ccdc/third-party'') ''qwt'')
             ''qwt-6.1.4-refs/heads/x-linux'')
     \<noteq> joinpath (pure_path False ''/opt/ccdc/third-party'') ''qwt''"
  proof
    assume "parent (joinpath (joinpath (pure_path False ''/opt/ccdc/third-party'') ''qwt'')
             ''qwt-6.1.4-refs/heads/x-linux'')
     = joinpath (pure_path False ''/opt/ccdc/third-party'') ''qwt''"
    then have "path_str (parent (joinpath (joinpath (pure_path False ''/opt/ccdc/third-party'') ''qwt'')
             ''qwt-6.1.4-refs/heads/x-linux''))
     = path_str (joinpath (pure_path False ''/opt/ccdc/third-party'') ''qwt'')"
      by simp
    then show False by (simp add: b c)
  qed
  show ?thesis
    by (simp add: install_directory_def ob tb nm a b c d)
qed



subsection \<open>The Visual Studio generator\<close>

text \<open>
  C6. \<open>visual_studio_generator_for_build\<close> returns \<open>Visual Studio 16 2019\<close> when
  \<open>BUILD_VS_VERSION\<close> is unset or is \<open>2019\<close>, \<open>Visual Studio 15 2017\<close> when it is
  \<open>2017\<close>, and raises an exception naming the value for any other value.
\<close>

theorem visual_studio_generator_cases:
  "(environ h ''BUILD_VS_VERSION'' = None \<longrightarrow>
      visual_studio_generator_for_build h = Inr ''Visual Studio 16 2019'') \<and>
   (environ h ''BUILD_VS_VERSION'' = Some ''2019'' \<longrightarrow>
      visual_studio_generator_for_build h = Inr ''Visual Studio 16 2019'') \<and>
   (environ h ''BUILD_VS_VERSION'' = Some ''2017'' \<longrightarrow>
      visual_studio_generator_for_build h = Inr ''Visual Studio 15 2017'') \<and>
   (\<forall>v. environ h ''BUILD_VS_VERSION'' = Some v \<longrightarrow> v \<noteq> ''2019'' \<longrightarrow> v \<noteq> ''2017'' \<longrightarrow>
      visual_studio_generator_for_build h
        = Inl (Exception (''Invalid value for BUILD_VS_VERSION: '' @ v)))"
  by (simp add: visual_studio_generator_for_build_def)

theorem visual_studio_generator_cases_witness:
  "visual_studio_generator_for_build (plain_host ''win32'' Map.empty) = Inr ''Visual Studio 16 2019'' \<and>
   visual_studio_generator_for_build (plain_host ''win32'' [''BUILD_VS_VERSION'' \<mapsto> ''2019''])
     = Inr ''Visual Studio 16 2019'' \<and>
   visual_studio_generator_for_build (plain_host ''win32'' [''BUILD_VS_VERSION'' \<mapsto> ''2017''])
     = Inr ''Visual Studio 15 2017'' \<and>
   visual_studio_generator_for_build (plain_host ''win32'' [''BUILD_VS_VERSION'' \<mapsto> ''2016''])
     = Inl (Exception ''Invalid value for BUILD_VS_VERSION: 2016'')"
  using visual_studio_generator_cases [of "plain_host ''win32'' Map.empty"]
    visual_studio_generator_cases [of "plain_host ''win32'' [''BUILD_VS_VERSION'' \<mapsto> ''2019'']"]
    visual_studio_generator_cases [of "plain_host ''win32'' [''BUILD_VS_VERSION'' \<mapsto> ''2017'']"]
    visual_studio_generator_cases [of "plain_host ''win32'' [''BUILD_VS_VERSION'' \<mapsto> ''2016'']"]
  by (simp add: plain_host_def)

subsection \<open>The build pipeline\<close>

lemma run_in_order_snoc:
  "run_in_order hk (ss @ [s]) st = and_then (run_in_order hk ss st) (call_stage hk s)"
proof (induction ss arbitrary: st)
  case Nil
  show ?case
    by (simp add: and_then_def split: prod.splits sum.splits)
next
  case (Cons a ss)
  show ?case
    by (simp add: Cons.IH split: prod.splits sum.splits) (simp add: and_then_def)
qed

lemma run_in_order_single: "call_stage hk s st = run_in_order hk [s] st"
  by (simp split: prod.splits sum.splits)

lemma build_run_in_order: "build hk st = run_in_order hk pipeline st"
proof -
  have step: "and_then (run_in_order hk ss st) (call_stage hk s) = run_in_order hk (ss @ [s]) st"
    for ss s
    by (simp only: run_in_order_snoc)
  show ?thesis
    unfolding build_def pipeline_def
    by (simp only: run_in_order_single [of hk Cleanup st] step append.simps)
qed

lemma run_in_order_trace:
  "run_in_order hk ss (tr, w) = (r, (tr', w')) \<Longrightarrow>
   \<exists>k\<le>length ss. tr' = tr @ take k ss \<and>
     (r = Inr () \<longrightarrow> k = length ss) \<and>
     (\<forall>e. r = Inl e \<longrightarrow> 0 < k \<and> (\<exists>w0. hk (ss ! (k - 1)) w0 = (Inl e, w'))) \<and>
     (\<forall>j. Suc j < k \<longrightarrow> (\<exists>w0 w1. hk (ss ! j) w0 = (Inr (), w1)))"
proof (induction ss arbitrary: tr w)
  case Nil
  then show ?case by auto
next
  case (Cons s ss)
  obtain r1 w1 where h: "hk s w = (r1, w1)" by (cases "hk s w")
  show ?case
  proof (cases r1)
    case (Inl e)
    with Cons.prems h have "r = Inl e" "tr' = tr @ [s]" "w' = w1"
      by (simp_all add: call_stage_def)
    with h Inl show ?thesis
      by (intro exI [of _ 1]) auto
  next
    case (Inr u)
    with Cons.prems h have "run_in_order hk ss (tr @ [s], w1) = (r, (tr', w'))"
      by (simp add: call_stage_def)
    from Cons.IH [OF this] obtain k where k: "k \<le> length ss" "tr' = (tr @ [s]) @ take k ss"
      "r = Inr () \<longrightarrow> k = length ss"
      "\<forall>e. r = Inl e \<longrightarrow> 0 < k \<and> (\<exists>w0. hk (ss ! (k - 1)) w0 = (Inl e, w'))"
      "\<forall>j. Suc j < k \<longrightarrow> (\<exists>w0 w1. hk (ss ! j) w0 = (Inr (), w1))"
      by blast
    have first: "hk s w = (Inr (), w1)" using h Inr by simp
    have later: "\<exists>w0 w1. hk ((s # ss) ! j) w0 = (Inr (), w1)" if "Suc j < Suc k" for j
    proof (cases j)
      case 0
      then show ?thesis using first by auto
    next
      case (Suc i)
      then show ?thesis using k(5) that by simp
    qed
    have fail: "0 < Suc k \<and> (\<exists>w0. hk ((s # ss) ! (Suc k - 1)) w0 = (Inl e, w'))" if "r = Inl e" for e
    proof -
      from k(4) that have "0 < k" "\<exists>w0. hk (ss ! (k - 1)) w0 = (Inl e, w')" by auto
      then show ?thesis by (cases k) auto
    qed
    show ?thesis
      using k(1) k(2) k(3) later fail
      by (intro exI [of _ "Suc k"]) auto
  qed
qed

lemma pipeline_facts:
  "length pipeline = 9" "distinct pipeline"
  "pipeline ! 4 = Run_configuration_script" "pipeline ! 5 = Run_build_command"
  by (simp_all add: pipeline_def)

lemma build_result_unit: "fst (build hk st) = Inr () \<or> (\<exists>e. fst (build hk st) = Inl e)"
  by (cases "fst (build hk st)") auto

text \<open>
  C3. \<open>build\<close> is the run of the nine stages cleanup, fetch_source_archives,
  extract_source_archives, patch_sources, run_configuration_script, run_build_command,
  run_install_command, verify, create_archive in that order, stopping at the first that
  raises: the stages called are a non-empty initial part of that list, all nine when
  \<open>build\<close> returns; when \<open>build\<close> raises, the last stage called raised that exception;
  every stage followed by another returned normally; no stage is called twice; and when
  run_configuration_script cannot return normally, run_build_command is never called.
\<close>

theorem build_runs_stages_in_order:
  "build hk ([], w) = run_in_order hk pipeline ([], w) \<and>
   (\<exists>k. 0 < k \<and> k \<le> 9 \<and> fst (snd (build hk ([], w))) = take k pipeline \<and>
      (fst (build hk ([], w)) = Inr () \<longrightarrow> k = 9) \<and>
      (\<forall>e. fst (build hk ([], w)) = Inl e \<longrightarrow>
         (\<exists>w0. hk (pipeline ! (k - 1)) w0 = (Inl e, snd (snd (build hk ([], w)))))) \<and>
      (\<forall>j. Suc j < k \<longrightarrow> (\<exists>w0 w1. hk (pipeline ! j) w0 = (Inr (), w1)))) \<and>
   distinct (fst (snd (build hk ([], w)))) \<and>
   ((\<forall>w0. fst (hk Run_configuration_script w0) \<noteq> Inr ()) \<longrightarrow>
      Run_build_command \<notin> set (fst (snd (build hk ([], w)))))"
proof -
  obtain r tr' w' where b: "build hk ([], w) = (r, (tr', w'))"
    by (cases "build hk ([], w)") auto
  have eq: "build hk ([], w) = run_in_order hk pipeline ([], w)"
    by (rule build_run_in_order)
  from b eq have "run_in_order hk pipeline ([], w) = (r, (tr', w'))" by simp
  from run_in_order_trace [OF this] obtain k where k:
    "k \<le> length pipeline" "tr' = take k pipeline"
    "r = Inr () \<longrightarrow> k = length pipeline"
    "\<forall>e. r = Inl e \<longrightarrow> 0 < k \<and> (\<exists>w0. hk (pipeline ! (k - 1)) w0 = (Inl e, w'))"
    "\<forall>j. Suc j < k \<longrightarrow> (\<exists>w0 w1. hk (pipeline ! j) w0 = (Inr (), w1))"
    by auto
  have pos: "0 < k"
    using k(3) k(4) pipeline_facts(1) by (cases r) auto
  have ex: "\<exists>k. 0 < k \<and> k \<le> 9 \<and> fst (snd (build hk ([], w))) = take k pipeline \<and>
      (fst (build hk ([], w)) = Inr () \<longrightarrow> k = 9) \<and>
      (\<forall>e. fst (build hk ([], w)) = Inl e \<longrightarrow>
         (\<exists>w0. hk (pipeline ! (k - 1)) w0 = (Inl e, snd (snd (build hk ([], w)))))) \<and>
      (\<forall>j. Suc j < k \<longrightarrow> (\<exists>w0 w1. hk (pipeline ! j) w0 = (Inr (), w1)))"
    using pos k pipeline_facts(1) b by (intro exI [of _ k]) simp
  have dist: "distinct (fst (snd (build hk ([], w))))"
    using b k(2) pipeline_facts(2) by (simp add: distinct_take)
  have conf: "Run_build_command \<notin> set (fst (snd (build hk ([], w))))"
    if never: "\<forall>w0. fst (hk Run_configuration_script w0) \<noteq> Inr ()"
  proof
    assume "Run_build_command \<in> set (fst (snd (build hk ([], w))))"
    then have "Run_build_command \<in> set (take k pipeline)" using b k(2) by simp
    then obtain i where i: "i < k" "i < length pipeline" "pipeline ! i = Run_build_command"
      by (auto simp: in_set_conv_nth)
    have "i = 5"
      using nth_eq_iff_index_eq [OF pipeline_facts(2), of i 5] i(2) i(3) pipeline_facts(1)
        pipeline_facts(4)
      by simp
    then have "Suc 4 < k" using i(1) by simp
    with k(5) obtain w0 w1 where "hk (pipeline ! 4) w0 = (Inr (), w1)" by blast
    then have "fst (hk Run_configuration_script w0) = Inr ()"
      by (simp add: pipeline_facts(3))
    with never show False by blast
  qed
  show ?thesis using eq ex dist conf by blast
qed

theorem build_runs_stages_in_order_witness:
  "fst (failing_configure Run_configuration_script ()) \<noteq> Inr () \<and>
   Run_build_command \<notin> set (fst (snd (build failing_configure ([], ())))) \<and>
   distinct (fst (snd (build failing_configure ([], ())))) \<and>
   fst (snd (build failing_configure ([], ())))
     = [Cleanup, Fetch_source_archives, Extract_source_archives, Patch_sources,
        Run_configuration_script]"
proof -
  have never: "\<forall>w0. fst (failing_configure Run_configuration_script w0) \<noteq> Inr ()"
    by (simp add: failing_configure_def)
  have "Run_build_command \<notin> set (fst (snd (build failing_configure ([], ()))))"
    using build_runs_stages_in_order [of failing_configure "()"] never by blast
  moreover have "distinct (fst (snd (build failing_configure ([], ()))))"
    using build_runs_stages_in_order [of failing_configure "()"] by blast
  moreover have "fst (snd (build failing_configure ([], ())))
     = [Cleanup, Fetch_source_archives, Extract_source_archives, Patch_sources,
        Run_configuration_script]"
    by (simp add: build_def and_then_def call_stage_def failing_configure_def)
  ultimately show ?thesis using never by simp
qed

subsection \<open>Extracting archives\<close>

lemma bind_exn_simps:
  "bind_exn (Inl e) f = Inl e"
  "bind_exn (Inr x) f = f x"
  by (simp_all add: bind_exn_def)

lemma system_py_simps:
  "system_py run (Inl e) dir st = (Inl e, st)"
  "system_py run (Inr (PyList xs)) dir st = system run \<lparr>argv = xs, cwd = dir\<rparr> st"
  "system_py run (Inr (PyStr s)) dir st = system run \<lparr>argv = [s], cwd = dir\<rparr> st"
  by (simp_all add: system_py_def)

lemma run_tar_posix:
  "\<not> windows h \<Longrightarrow>
   run_tar run h flags pth wh st = system run \<lparr>argv = ''tar'' # flags @ [path_str pth], cwd = Some wh\<rparr> st"
  by (simp add: run_tar_def system_py_simps bind_exn_simps)

lemma run_tar_windows:
  "windows h \<Longrightarrow> run_tar run h flags pth wh st = (Inl TypeError, st)"
  by (simp add: run_tar_def system_py_simps bind_exn_simps Let_def)

lemma suffixes_win32_foo_tar_bz2:
  "suffixes (joinpath (source_downloads_base (plain_host ''win32'' Map.empty)) ''foo.tar.bz2'')
     = [''.tar'', ''.bz2'']"
  by code_simp

lemma suffixes_win32_foo_tar_gz:
  "suffixes (joinpath (source_downloads_base (plain_host ''win32'' Map.empty)) ''foo.tar.gz'')
     = [''.tar'', ''.gz'']"
  by code_simp

lemma suffixes_linux_foo_7z:
  "suffixes (joinpath (source_downloads_base (plain_host ''linux'' Map.empty)) ''foo.7z'')
     = [''.7z'']"
  by code_simp

lemma str_linux_foo_7z:
  "path_str (joinpath (source_downloads_base (plain_host ''linux'' Map.empty)) ''foo.7z'')
     = ''/opt/ccdc/third-party-sources/downloads/foo.7z''"
  by code_simp

lemma str_linux_extracted:
  "path_str (source_extracted_base (plain_host ''linux'' Map.empty))
     = ''/opt/ccdc/third-party-sources/extracted''"
  by code_simp

text \<open>
  The dispatch of \<open>extract_archive\<close>, in the order of its tests. The \<open>.zip\<close> branch and
  the unsupported-format error come before the platform test and hold on every
  platform; the tar branches are as follows away from Windows.
\<close>

lemma extract_archive_dispatch:
  "(''.zip'' \<in> set (suffixes pth) \<longrightarrow>
      extract_archive run h pth wh st
        = system run \<lparr>argv = [''unzip'', ''-q'', ''-o'', path_str pth], cwd = Some wh\<rparr> st) \<and>
   (''.zip'' \<notin> set (suffixes pth) \<and> ''.7z'' \<notin> set (suffixes pth) \<longrightarrow>
      (''.bz2'' \<notin> set (suffixes pth) \<and> ''.gz'' \<notin> set (suffixes pth) \<and>
       ''.tgz'' \<notin> set (suffixes pth) \<and> ''.xz'' \<notin> set (suffixes pth) \<and>
       ''.zst'' \<notin> set (suffixes pth) \<longrightarrow>
         extract_archive run h pth wh st
           = (Inl (AttributeError (''Can't extract '' @ path_str pth)), st)) \<and>
      (\<not> windows h \<longrightarrow>
         (''.bz2'' \<in> set (suffixes pth) \<longrightarrow>
            extract_archive run h pth wh st
              = system run \<lparr>argv = [''tar'', ''jxf'', path_str pth], cwd = Some wh\<rparr> st) \<and>
         (''.bz2'' \<notin> set (suffixes pth) \<and>
          (''.gz'' \<in> set (suffixes pth) \<or> ''.tgz'' \<in> set (suffixes pth)) \<longrightarrow>
            extract_archive run h pth wh st
              = system run \<lparr>argv = [''tar'', ''zxf'', path_str pth], cwd = Some wh\<rparr> st) \<and>
         (''.bz2'' \<notin> set (suffixes pth) \<and> ''.gz'' \<notin> set (suffixes pth) \<and>
          ''.tgz'' \<notin> set (suffixes pth) \<and> ''.xz'' \<in> set (suffixes pth) \<longrightarrow>
            extract_archive run h pth wh st
              = system run \<lparr>argv = [''tar'', ''xf'', path_str pth], cwd = Some wh\<rparr> st) \<and>
         (''.bz2'' \<notin> set (suffixes pth) \<and> ''.gz'' \<notin> set (suffixes pth) \<and>
          ''.tgz'' \<notin> set (suffixes pth) \<and> ''.xz'' \<notin> set (suffixes pth) \<and>
          ''.zst'' \<in> set (suffixes pth) \<longrightarrow>
            extract_archive run h pth wh st
              = system run
                  \<lparr>argv = [''tar'', ''--use-compress-program=zstd'', ''-xf'', path_str pth],
                   cwd = Some wh\<rparr> st)) \<and>
      (windows h \<longrightarrow>
         (''.bz2'' \<in> set (suffixes pth) \<or> ''.gz'' \<in> set (suffixes pth) \<or>
          ''.tgz'' \<in> set (suffixes pth) \<or> ''.xz'' \<in> set (suffixes pth) \<or>
          ''.zst'' \<in> set (suffixes pth) \<longrightarrow>
            extract_archive run h pth wh st = (Inl TypeError, st))))"
  by (simp add: extract_archive_def tar_flags_def run_tar_posix run_tar_windows)

text \<open>
  C1. On Windows the tar branch of \<open>extract_archive\<close> is meant to run tar with
  \<open>--force-local\<close> and to retry without it. Evaluated on \<open>foo.tar.bz2\<close> with every
  command succeeding, it raises \<open>TypeError\<close> while building the first command list,
  and no tar invocation is executed.
\<close>

theorem extract_archive_windows_type_error:
  "extract_archive all_succeed (plain_host ''win32'' Map.empty)
     (joinpath (source_downloads_base (plain_host ''win32'' Map.empty)) ''foo.tar.bz2'')
     (source_extracted_base (plain_host ''win32'' Map.empty)) ([], ())
   = (Inl TypeError, ([], ()))"
  by (simp add: extract_archive_def suffixes_win32_foo_tar_bz2 tar_flags_def run_tar_windows
      windows_win32)

text \<open>
  C2. For \<open>foo.7z\<close> on Linux with every command succeeding, \<open>extract_archive\<close> runs
  7z and then, having no \<open>return\<close> after it, reaches the \<open>else\<close> of the suffix chain
  and raises the unsupported-format error.
\<close>

theorem extract_archive_7z_falls_through:
  "extract_archive all_succeed (plain_host ''linux'' Map.empty)
     (joinpath (source_downloads_base (plain_host ''linux'' Map.empty)) ''foo.7z'')
     (source_extracted_base (plain_host ''linux'' Map.empty)) ([], ())
   = (Inl (AttributeError ''Can't extract /opt/ccdc/third-party-sources/downloads/foo.7z''),
      ([\<lparr>argv = [''7z'', ''x'', ''-aoa'', ''-o/opt/ccdc/third-party-sources/extracted'',
                  ''/opt/ccdc/third-party-sources/downloads/foo.7z''],
         cwd = None\<rparr>], ()))"
  by (simp add: extract_archive_def suffixes_linux_foo_7z tar_flags_def system_def all_succeed_def
      str_linux_foo_7z str_linux_extracted)

text \<open>
  C4. \<open>extract_archive\<close> dispatches by suffix, \<open>.gz\<close> to \<open>tar zxf\<close>. Evaluated on
  Windows for \<open>foo.tar.gz\<close> with every command succeeding, the tar branch raises
  \<open>TypeError\<close> while building the command list and runs nothing: no \<open>tar zxf\<close>.
\<close>

theorem extract_archive_windows_tar_gz:
  "extract_archive all_succeed (plain_host ''win32'' Map.empty)
     (joinpath (source_downloads_base (plain_host ''win32'' Map.empty)) ''foo.tar.gz'')
     (source_extracted_base (plain_host ''win32'' Map.empty)) ([], ())
   = (Inl TypeError, ([], ()))"
  by (simp add: extract_archive_def suffixes_win32_foo_tar_gz tar_flags_def run_tar_windows
      windows_win32)

subsection \<open>Creating the archive\<close>

lemma system_result_cases:
  "fst (system run c st) = Inr () \<or> fst (system run c st) = Inl OSError \<or>
   fst (system run c st) = Inl UnicodeDecodeError \<or>
   fst (system run c st) = Inl UnicodeEncodeError \<or>
   (\<exists>rc. rc \<noteq> 0 \<and> fst (system run c st) = Inl (CalledProcessError rc (argv c)))"
  by (auto simp: system_def split: prod.splits outcome.splits)

lemma list_insert_force_local:
  "list_insert (Suc 0) ''--force-local'' [''tar'', ''-zcf'', t, m]
     = [''tar'', ''--force-local'', ''-zcf'', t, m]"
  by (simp add: list_insert_def)

lemma archive_command_cases:
  "archive_command p h =
     (case output_base_name p h of
        Inl e \<Rightarrow> Inl e
      | Inr b \<Rightarrow>
          (case relative_to (joinpath (joinpath (toolbase h) (name p)) b)
                  (joinpath (toolbase h) (name p)) of
             Inl e \<Rightarrow> Inl e
           | Inr rel \<Rightarrow>
               Inr [''tar'', ''-zcf'',
                    path_str (joinpath (archive_output_directory h) (b @ ''.tar.gz'')),
                    path_str rel]))"
  by (simp add: archive_command_def output_archive_filename_def install_directory_def
      bind_exn_simps split: sum.splits)

lemma create_archive_runs:
  assumes "archive_command p h = Inr [''tar'', ''-zcf'', t, m]"
  shows
  "(\<not> windows h \<longrightarrow>
      create_archive run p h st
        = system run \<lparr>argv = [''tar'', ''-zcf'', t, m],
                       cwd = Some (joinpath (toolbase h) (name p))\<rparr> st) \<and>
   (windows h \<longrightarrow>
      (\<forall>rc c. fst (system run \<lparr>argv = [''tar'', ''-zcf'', t, m],
                                cwd = Some (joinpath (toolbase h) (name p))\<rparr> st)
                 = Inl (CalledProcessError rc c) \<longrightarrow>
         create_archive run p h st
           = system run \<lparr>argv = [''tar'', ''--force-local'', ''-zcf'', t, m],
                          cwd = Some (joinpath (toolbase h) (name p))\<rparr>
               (snd (system run \<lparr>argv = [''tar'', ''-zcf'', t, m],
                                  cwd = Some (joinpath (toolbase h) (name p))\<rparr> st))) \<and>
      ((\<forall>rc c. fst (system run \<lparr>argv = [''tar'', ''-zcf'', t, m],
                                 cwd = Some (joinpath (toolbase h) (name p))\<rparr> st)
                 \<noteq> Inl (CalledProcessError rc c)) \<longrightarrow>
         create_archive run p h st
           = system run \<lparr>argv = [''tar'', ''-zcf'', t, m],
                          cwd = Some (joinpath (toolbase h) (name p))\<rparr> st))"
  using system_result_cases [of run "\<lparr>argv = [''tar'', ''-zcf'', t, m],
                       cwd = Some (joinpath (toolbase h) (name p))\<rparr>" st]
  by (auto simp: create_archive_def assms list_insert_force_local Let_def split: sum.splits)

lemma tar_gz_single:
  assumes "single_component win b" "b \<noteq> []"
  shows "single_component win (b @ ''.tar.gz'')"
proof (cases b)
  case Nil
  with assms show ?thesis by simp
next
  case (Cons x xs)
  show ?thesis
  proof (cases xs)
    case Nil
    with Cons assms show ?thesis
      by (auto simp: single_component_def backslash_def split: if_splits)
  next
    case (Cons y ys)
    with \<open>b = x # xs\<close> assms show ?thesis
      by (auto simp: single_component_def backslash_def split: if_splits)
  qed
qed

lemma archive_output_directory_flavour:
  "windows_flavour (archive_output_directory h) = windows h"
  by (simp add: archive_output_directory_def source_builds_base_def Path_flavour
      split: option.splits)

lemma archive_output_directory_anchor:
  "drv (archive_output_directory h) \<noteq> [] \<or> root (archive_output_directory h) \<noteq> [] \<Longrightarrow>
   parts (archive_output_directory h) \<noteq> []"
  unfolding archive_output_directory_def source_builds_base_def
  by (cases "environ h ''BUILD_ARTIFACTSTAGINGDIRECTORY''"; cases "windows h")
     (simp_all add: Path_anchor)

text \<open>
  C9, as amended. \<open>create_archive\<close> first computes the archive name and the install
  directory's path relative to \<open>toolbase / name\<close>; when either raises, it raises that
  exception and runs nothing. Otherwise it runs
  \<open>tar -zcf <directory>/<base name>.tar.gz <relative path>\<close> with \<open>toolbase / name\<close> as
  working directory, the directory being \<open>BUILD_ARTIFACTSTAGINGDIRECTORY\<close> when set and
  the source-builds base otherwise (for a base name that is a single component the
  archive is the file \<open><base name>.tar.gz\<close> directly in that directory). Away from
  Windows the outcome of that one command is the outcome of \<open>create_archive\<close>, a
  failure included. On Windows, when the command exits with a non-zero status, the
  command with \<open>--force-local\<close> inserted after \<open>tar\<close> is run once and its outcome is the
  outcome; otherwise there is no retry.
\<close>

theorem create_archive_tar:
  "(\<forall>e. output_base_name p h = Inl e \<longrightarrow> create_archive run p h st = (Inl e, st)) \<and>
   (\<forall>b. output_base_name p h = Inr b \<longrightarrow>
      (\<forall>e. relative_to (joinpath (joinpath (toolbase h) (name p)) b)
              (joinpath (toolbase h) (name p)) = Inl e \<longrightarrow>
           create_archive run p h st = (Inl e, st)) \<and>
      (\<forall>rel. relative_to (joinpath (joinpath (toolbase h) (name p)) b)
                (joinpath (toolbase h) (name p)) = Inr rel \<longrightarrow>
         (let target = path_str (joinpath (archive_output_directory h) (b @ ''.tar.gz''));
              first = \<lparr>argv = [''tar'', ''-zcf'', target, path_str rel],
                       cwd = Some (joinpath (toolbase h) (name p))\<rparr>;
              second = \<lparr>argv = [''tar'', ''--force-local'', ''-zcf'', target, path_str rel],
                        cwd = Some (joinpath (toolbase h) (name p))\<rparr>
          in (\<not> windows h \<longrightarrow> create_archive run p h st = system run first st) \<and>
             (windows h \<longrightarrow>
                (\<forall>rc c. fst (system run first st) = Inl (CalledProcessError rc c) \<longrightarrow>
                   create_archive run p h st = system run second (snd (system run first st))) \<and>
                ((\<forall>rc c. fst (system run first st) \<noteq> Inl (CalledProcessError rc c)) \<longrightarrow>
                   create_archive run p h st = system run first st)))) \<and>
      (single_component (windows h) b \<longrightarrow>
         path_name (joinpath (archive_output_directory h) (b @ ''.tar.gz'')) = b @ ''.tar.gz'' \<and>
         parent (joinpath (archive_output_directory h) (b @ ''.tar.gz''))
           = archive_output_directory h)) \<and>
   (environ h ''BUILD_ARTIFACTSTAGINGDIRECTORY'' = None \<longrightarrow>
      archive_output_directory h = source_builds_base h) \<and>
   (\<forall>d. environ h ''BUILD_ARTIFACTSTAGINGDIRECTORY'' = Some d \<longrightarrow>
      archive_output_directory h = Path h d)"
proof -
  let ?t = "joinpath (toolbase h) (name p)"
  have c1: "create_archive run p h st = (Inl e, st)" if "output_base_name p h = Inl e" for e
    using that by (simp add: create_archive_def archive_command_cases)
  have c2: "create_archive run p h st = (Inl e, st)"
    if "output_base_name p h = Inr b" "relative_to (joinpath ?t b) ?t = Inl e" for b e
    using that by (simp add: create_archive_def archive_command_cases)
  have c3: "(let target = path_str (joinpath (archive_output_directory h) (b @ ''.tar.gz''));
              first = \<lparr>argv = [''tar'', ''-zcf'', target, path_str rel], cwd = Some ?t\<rparr>;
              second = \<lparr>argv = [''tar'', ''--force-local'', ''-zcf'', target, path_str rel],
                        cwd = Some ?t\<rparr>
          in (\<not> windows h \<longrightarrow> create_archive run p h st = system run first st) \<and>
             (windows h \<longrightarrow>
                (\<forall>rc c. fst (system run first st) = Inl (CalledProcessError rc c) \<longrightarrow>
                   create_archive run p h st = system run second (snd (system run first st))) \<and>
                ((\<forall>rc c. fst (system run first st) \<noteq> Inl (CalledProcessError rc c)) \<longrightarrow>
                   create_archive run p h st = system run first st)))"
    if "output_base_name p h = Inr b" "relative_to (joinpath ?t b) ?t = Inr rel" for b rel
  proof -
    have "archive_command p h =
        Inr [''tar'', ''-zcf'', path_str (joinpath (archive_output_directory h) (b @ ''.tar.gz'')),
             path_str rel]"
      using that by (simp add: archive_command_cases)
    from create_archive_runs [OF this] show ?thesis by (simp add: Let_def)
  qed
  have c4: "path_name (joinpath (archive_output_directory h) (b @ ''.tar.gz'')) = b @ ''.tar.gz'' \<and>
         parent (joinpath (archive_output_directory h) (b @ ''.tar.gz''))
           = archive_output_directory h"
    if "output_base_name p h = Inr b" "single_component (windows h) b" for b
  proof -
    have "CHR ''-'' \<in> set b" using that(1) by (rule output_base_name_dash)
    then have ne: "b \<noteq> []" by auto
    have sc: "single_component (windows_flavour (archive_output_directory h)) (b @ ''.tar.gz'')"
      using tar_gz_single [OF that(2) ne] by (simp add: archive_output_directory_flavour)
    have n1: "b @ ''.tar.gz'' \<noteq> []" "b @ ''.tar.gz'' \<noteq> ''.''" by simp_all
    from child_of [OF archive_output_directory_anchor sc n1] show ?thesis by simp
  qed
  have c5: "(environ h ''BUILD_ARTIFACTSTAGINGDIRECTORY'' = None \<longrightarrow>
      archive_output_directory h = source_builds_base h) \<and>
   (\<forall>d. environ h ''BUILD_ARTIFACTSTAGINGDIRECTORY'' = Some d \<longrightarrow>
      archive_output_directory h = Path h d)"
    by (simp add: archive_output_directory_def)
  show ?thesis using c1 c2 c3 c4 c5 by blast
qed

theorem create_archive_tar_witness:
  "output_base_name (Package ''qwt'' ''6.1.4'' [])
     win_ci_host
     = Inr ''qwt-6.1.4-do-not-use-me-developer-version-win32'' \<and>
   windows win_ci_host \<and>
   create_archive needs_force_local (Package ''qwt'' ''6.1.4'' [])
     win_ci_host
     ([], ())
   = (Inr (),
      ([\<lparr>argv = [''tar'', ''-zcf'',
                  win_text [''E:'', ''stage'',
                            ''qwt-6.1.4-do-not-use-me-developer-version-win32.tar.gz''],
                  ''qwt-6.1.4-do-not-use-me-developer-version-win32''],
         cwd = Some (joinpath (toolbase win_ci_host) ''qwt'')\<rparr>,
        \<lparr>argv = [''tar'', ''--force-local'', ''-zcf'',
                  win_text [''E:'', ''stage'',
                            ''qwt-6.1.4-do-not-use-me-developer-version-win32.tar.gz''],
                  ''qwt-6.1.4-do-not-use-me-developer-version-win32''],
         cwd = Some (joinpath (toolbase win_ci_host) ''qwt'')\<rparr>],
       ())) \<and>
   output_base_name (Package ''qwt'' ''6.1.4'' []) (plain_host ''linux'' Map.empty)
     = Inr ''qwt-6.1.4-do-not-use-me-developer-version-linux'' \<and>
   \<not> windows (plain_host ''linux'' Map.empty) \<and>
   create_archive all_fail (Package ''qwt'' ''6.1.4'' []) (plain_host ''linux'' Map.empty) ([], ())
   = (Inl (CalledProcessError 2
        [''tar'', ''-zcf'',
         ''/opt/ccdc/third-party-sources/builds/qwt-6.1.4-do-not-use-me-developer-version-linux.tar.gz'',
         ''qwt-6.1.4-do-not-use-me-developer-version-linux'']),
      ([\<lparr>argv = [''tar'', ''-zcf'',
         ''/opt/ccdc/third-party-sources/builds/qwt-6.1.4-do-not-use-me-developer-version-linux.tar.gz'',
         ''qwt-6.1.4-do-not-use-me-developer-version-linux''],
         cwd = Some (joinpath (toolbase (plain_host ''linux'' Map.empty)) ''qwt'')\<rparr>], ()))"
proof -
  let ?p = "Package ''qwt'' ''6.1.4'' []"
  let ?w = "win_ci_host"
  let ?l = "plain_host ''linux'' Map.empty"
  let ?bw = "''qwt-6.1.4-do-not-use-me-developer-version-win32''"
  let ?bl = "''qwt-6.1.4-do-not-use-me-developer-version-linux''"
  have nm: "name ?p = ''qwt''" by (simp add: Package_def)
  have obw: "output_base_name ?p ?w = Inr ?bw"
    by (simp add: win_ci_host_def qwt_base_name_win32)
  have ww: "windows ?w" by (simp add: win_ci_host_def windows_win32)
  have relw: "relative_to (joinpath (joinpath (toolbase ?w) (name ?p)) ?bw)
       (joinpath (toolbase ?w) (name ?p))
     = Inr \<lparr>windows_flavour = True, drv = [], root = [], parts = [?bw]\<rparr>"
    by code_simp
  have tgtw: "path_str (joinpath (archive_output_directory ?w) ''qwt-6.1.4-do-not-use-me-developer-version-win32.tar.gz'')
     = win_text [''E:'', ''stage'', ''qwt-6.1.4-do-not-use-me-developer-version-win32.tar.gz'']"
    by code_simp
  have strw: "path_str \<lparr>windows_flavour = True, drv = [], root = [], parts = [?bw]\<rparr> = ?bw"
    by code_simp
  have rell: "relative_to (joinpath (joinpath (toolbase ?l) (name ?p)) ?bl)
       (joinpath (toolbase ?l) (name ?p))
     = Inr \<lparr>windows_flavour = False, drv = [], root = [], parts = [?bl]\<rparr>"
    by code_simp
  have tgtl: "path_str (joinpath (archive_output_directory ?l) ''qwt-6.1.4-do-not-use-me-developer-version-linux.tar.gz'')
     = ''/opt/ccdc/third-party-sources/builds/qwt-6.1.4-do-not-use-me-developer-version-linux.tar.gz''"
    by code_simp
  have strl: "path_str \<lparr>windows_flavour = False, drv = [], root = [], parts = [?bl]\<rparr> = ?bl"
    by code_simp
  have tw: "\<forall>b. output_base_name ?p ?w = Inr b \<longrightarrow>
      (\<forall>rel. relative_to (joinpath (joinpath (toolbase ?w) (name ?p)) b)
                (joinpath (toolbase ?w) (name ?p)) = Inr rel \<longrightarrow>
         (let target = path_str (joinpath (archive_output_directory ?w) (b @ ''.tar.gz''));
              first = \<lparr>argv = [''tar'', ''-zcf'', target, path_str rel],
                       cwd = Some (joinpath (toolbase ?w) (name ?p))\<rparr>;
              second = \<lparr>argv = [''tar'', ''--force-local'', ''-zcf'', target, path_str rel],
                        cwd = Some (joinpath (toolbase ?w) (name ?p))\<rparr>
          in (\<not> windows ?w \<longrightarrow> create_archive needs_force_local ?p ?w ([], ()) = system needs_force_local first ([], ())) \<and>
             (windows ?w \<longrightarrow>
                (\<forall>rc c. fst (system needs_force_local first ([], ())) = Inl (CalledProcessError rc c) \<longrightarrow>
                   create_archive needs_force_local ?p ?w ([], ()) = system needs_force_local second (snd (system needs_force_local first ([], ())))) \<and>
                ((\<forall>rc c. fst (system needs_force_local first ([], ())) \<noteq> Inl (CalledProcessError rc c)) \<longrightarrow>
                   create_archive needs_force_local ?p ?w ([], ()) = system needs_force_local first ([], ())))))"
    using create_archive_tar [of ?p ?w needs_force_local "([], ())"] by blast
  have win: "create_archive needs_force_local ?p ?w ([], ())
   = (Inr (),
      ([\<lparr>argv = [''tar'', ''-zcf'',
                  win_text [''E:'', ''stage'',
                            ''qwt-6.1.4-do-not-use-me-developer-version-win32.tar.gz''],
                  ?bw],
         cwd = Some (joinpath (toolbase ?w) ''qwt'')\<rparr>,
        \<lparr>argv = [''tar'', ''--force-local'', ''-zcf'',
                  win_text [''E:'', ''stage'',
                            ''qwt-6.1.4-do-not-use-me-developer-version-win32.tar.gz''],
                  ?bw],
         cwd = Some (joinpath (toolbase ?w) ''qwt'')\<rparr>],
       ()))"
    using tw [rule_format, OF obw relw]
    by (simp add: Let_def tgtw strw nm ww system_def needs_force_local_def
        win_text_def backslash_def)
  have tl: "\<forall>b. output_base_name ?p ?l = Inr b \<longrightarrow>
      (\<forall>rel. relative_to (joinpath (joinpath (toolbase ?l) (name ?p)) b)
                (joinpath (toolbase ?l) (name ?p)) = Inr rel \<longrightarrow>
         (let target = path_str (joinpath (archive_output_directory ?l) (b @ ''.tar.gz''));
              first = \<lparr>argv = [''tar'', ''-zcf'', target, path_str rel],
                       cwd = Some (joinpath (toolbase ?l) (name ?p))\<rparr>
          in (\<not> windows ?l \<longrightarrow> create_archive all_fail ?p ?l ([], ()) = system all_fail first ([], ()))))"
    using create_archive_tar [of ?p ?l all_fail "([], ())"] by (simp add: Let_def)
  have lin: "create_archive all_fail ?p ?l ([], ())
   = (Inl (CalledProcessError 2
        [''tar'', ''-zcf'',
         ''/opt/ccdc/third-party-sources/builds/qwt-6.1.4-do-not-use-me-developer-version-linux.tar.gz'',
         ?bl]),
      ([\<lparr>argv = [''tar'', ''-zcf'',
         ''/opt/ccdc/third-party-sources/builds/qwt-6.1.4-do-not-use-me-developer-version-linux.tar.gz'',
         ?bl],
         cwd = Some (joinpath (toolbase ?l) ''qwt'')\<rparr>], ()))"
    using tl [rule_format, OF qwt_base_name_linux rell]
    by (simp add: Let_def tgtl strl nm not_windows_linux system_def all_fail_def)
  show ?thesis
    using obw win qwt_base_name_linux lin ww not_windows_linux by simp
qed

text \<open>
  On a CentOS host whose \<open>rpm\<close> probe fails, a package that puts the distribution in
  its base name cannot compute the name: \<open>create_archive\<close> raises the probe's error
  and runs no tar.
\<close>

theorem create_archive_probe_failure_counterexample:
  "create_archive all_succeed
     ((Package ''qwt'' ''6.1.4'' [])\<lparr>use_distribution_in_base_name := True\<rparr>)
     ((plain_host ''linux'' Map.empty)\<lparr>centos_release_exists := True\<rparr>) ([], ())
   = (Inl (CalledProcessError 127 [''rpm -E %{rhel}'']), ([], ()))"
  by (simp add: create_archive_def archive_command_cases output_base_name_def platform_def
      Package_def plain_host_def linux_def startswith_def centos_def centos_major_version_def)

subsection \<open>Fetching the source archives\<close>













end
